theory Spec2Isabelle
  imports Complex_Main "HOL-Library.Sublist"
begin

section \<open>Data model\<close>

text \<open>
  Times are Python floats in the source; they are modelled as reals, so every comparison and
  subtraction below is the exact one. Chapter numbers are Python integers (\<open>int\<close>).

  A raw candidate is the 4-tuple \<open>(kind, t_start, t_end, n)\<close> that \<open>main\<close> appends to
  \<open>raw_candidates\<close>; \<open>n\<close> is \<open>None\<close> for a back-matter candidate. A mark is the 3-tuple
  \<open>(ts, te, n)\<close> appended to \<open>chapters\<close>. A segment is the 3-tuple \<open>(ss, ee, lab)\<close> with a
  string label.
\<close>

datatype kind = KChapter | KBack

type_synonym raw_candidate = "kind \<times> real \<times> real \<times> int option"
type_synonym mark = "real \<times> real \<times> int option"
type_synonym segment = "real \<times> real \<times> string"

text \<open>The command-line arguments that the temporal reasoning layer reads.\<close>

record args =
  conf_min :: real
  sequential_chapters :: bool
  min_chapter_gap :: real
  min_chapter_duration :: real
  silence_pre :: real
  silence_post :: real

section \<open>Silence index and gate\<close>

text \<open>
  \<open>bisect.bisect_right\<close> and \<open>bisect.bisect_left\<close> belong to the Python standard library;
  they are modelled by the binary-search loops of the library's pure-Python implementation
  (\<open>lo = 0\<close>, \<open>hi = len(a)\<close>, \<open>mid = (lo + hi) // 2\<close>).
\<close>

function bisect_right_loop :: "real list \<Rightarrow> real \<Rightarrow> nat \<Rightarrow> nat \<Rightarrow> nat" where
  "bisect_right_loop a x lo hi =
     (if lo < hi then
        (let mid = (lo + hi) div 2 in
         if x < a ! mid then bisect_right_loop a x lo mid
         else bisect_right_loop a x (mid + 1) hi)
      else lo)"
  by pat_completeness auto
termination
  by (relation "measure (\<lambda>(a, x, lo, hi). hi - lo)") auto

function bisect_left_loop :: "real list \<Rightarrow> real \<Rightarrow> nat \<Rightarrow> nat \<Rightarrow> nat" where
  "bisect_left_loop a x lo hi =
     (if lo < hi then
        (let mid = (lo + hi) div 2 in
         if a ! mid < x then bisect_left_loop a x (mid + 1) hi
         else bisect_left_loop a x lo mid)
      else lo)"
  by pat_completeness auto
termination
  by (relation "measure (\<lambda>(a, x, lo, hi). hi - lo)") auto

declare bisect_right_loop.simps [simp del]
declare bisect_left_loop.simps [simp del]

definition bisect_right :: "real list \<Rightarrow> real \<Rightarrow> nat" where
  "bisect_right a x = bisect_right_loop a x 0 (length a)"

definition bisect_left :: "real list \<Rightarrow> real \<Rightarrow> nat" where
  "bisect_left a x = bisect_left_loop a x 0 (length a)"

definition build_silence_index :: "(real \<times> real) list \<Rightarrow> real list \<times> real list" where
  "build_silence_index silences = (map fst silences, map snd silences)"

text \<open>
  \<open>idx_end\<close> is \<open>bisect_right(ends, t_start) - 1\<close> and can be \<open>-1\<close>, so it is an integer;
  the guards \<open>0 <= idx < len(...)\<close> are the source's.
\<close>

definition nearest_silence_bounds ::
  "real \<Rightarrow> real \<Rightarrow> (real \<times> real) list \<Rightarrow> real list \<Rightarrow> real list \<Rightarrow> real option \<times> real option"
where
  "nearest_silence_bounds t_start t_end silences starts ends =
     (let idx_end = int (bisect_right ends t_start) - 1;
          prev_end = (if 0 \<le> idx_end \<and> idx_end < int (length ends)
                      then Some (ends ! nat idx_end) else None);
          idx_start = int (bisect_left starts t_end);
          next_start = (if 0 \<le> idx_start \<and> idx_start < int (length starts)
                        then Some (starts ! nat idx_start) else None)
      in (prev_end, next_start))"

definition passes_silence_gate ::
  "real \<Rightarrow> real \<Rightarrow> (real \<times> real) list \<Rightarrow> real list \<Rightarrow> real list \<Rightarrow> real \<Rightarrow> real \<Rightarrow> bool"
where
  "passes_silence_gate t_start t_end silences starts ends pre_win post_win =
     (case nearest_silence_bounds t_start t_end silences starts ends of
        (prev_end, next_start) \<Rightarrow>
          (let pre_ok = (case prev_end of None \<Rightarrow> False | Some pe \<Rightarrow> t_start - pe \<le> pre_win);
               post_ok = (case next_start of None \<Rightarrow> False | Some ns \<Rightarrow> ns - t_end \<le> post_win)
           in pre_ok \<and> post_ok))"

section \<open>Candidate filter\<close>

text \<open>
  \<open>sorted(..., key=lambda x: x[1])\<close> is a stable sort by the second component;
  \<open>sort_key\<close> is a stable insertion sort.
\<close>

definition cand_ts :: "raw_candidate \<Rightarrow> real" where
  "cand_ts c = fst (snd c)"

definition chapter_candidates :: "raw_candidate list \<Rightarrow> raw_candidate list" where
  "chapter_candidates raw_candidates =
     sort_key cand_ts (filter (\<lambda>c. fst c = KChapter) raw_candidates)"

definition back_candidates :: "raw_candidate list \<Rightarrow> raw_candidate list" where
  "back_candidates raw_candidates =
     sort_key cand_ts (filter (\<lambda>c. fst c = KBack) raw_candidates)"

text \<open>
  One iteration of the gating loop over \<open>chapter_candidates\<close>. The loop state is
  \<open>(chapters, last_keep_t)\<close>; a \<open>continue\<close> returns the state unchanged.
\<close>

definition chapter_step ::
  "args \<Rightarrow> (real \<times> real) list \<Rightarrow> raw_candidate \<Rightarrow> mark list \<times> real \<Rightarrow> mark list \<times> real"
where
  "chapter_step a silences c st =
     (case c of (knd, ts, te, n) \<Rightarrow>
      (case st of (chapters, last_keep_t) \<Rightarrow>
        if length silences > 0 \<and>
           \<not> passes_silence_gate ts te silences
                (fst (build_silence_index silences)) (snd (build_silence_index silences))
                (silence_pre a) (silence_post a)
        then (chapters, last_keep_t)
        else if ts - last_keep_t < min_chapter_gap a then (chapters, last_keep_t)
        else (chapters @ [(ts, te, n)], ts)))"

definition initial_last_keep_t :: real where
  "initial_last_keep_t = - 1000000000000"

definition gated_chapters :: "args \<Rightarrow> (real \<times> real) list \<Rightarrow> raw_candidate list \<Rightarrow> mark list" where
  "gated_chapters a silences raw_candidates =
     fst (fold (chapter_step a silences) (chapter_candidates raw_candidates)
            ([], initial_last_keep_t))"

text \<open>Keeping the first occurrence of each chapter number; the state is \<open>(marks, seen_nums)\<close>.\<close>

definition first_occurrence_step ::
  "mark \<Rightarrow> mark list \<times> int option set \<Rightarrow> mark list \<times> int option set"
where
  "first_occurrence_step m st =
     (case m of (ts, te, n) \<Rightarrow>
      (case st of (marks, seen_nums) \<Rightarrow>
        if n \<notin> seen_nums then (marks @ [(ts, te, n)], insert n seen_nums)
        else (marks, seen_nums)))"

text \<open>The sequential scan; the state is \<open>(sequential_marks, expected_chapter)\<close>.\<close>

definition sequential_step :: "mark \<Rightarrow> mark list \<times> int \<Rightarrow> mark list \<times> int" where
  "sequential_step m st =
     (case m of (ts, te, n) \<Rightarrow>
      (case st of (sequential_marks, expected_chapter) \<Rightarrow>
        if n = Some expected_chapter
        then (sequential_marks @ [(ts, te, n)], expected_chapter + 1)
        else (sequential_marks, expected_chapter)))"

definition final_marks :: "args \<Rightarrow> (real \<times> real) list \<Rightarrow> raw_candidate list \<Rightarrow> mark list" where
  "final_marks a silences raw_candidates =
     (let chapters = gated_chapters a silences raw_candidates;
          marks = (if sequential_chapters a then sort_key fst chapters
                   else sort_key fst (fst (fold first_occurrence_step chapters ([], {}))))
      in if sequential_chapters a
         then fst (fold sequential_step (sort_key fst marks) ([], 1))
         else marks)"

text \<open>
  The back-matter loop: the first back candidate (in time order) for which
  \<open>passes_silence_gate\<close> holds gives \<open>back_start\<close> (here \<open>pick_back_start\<close>); the gate is called unconditionally.
\<close>

fun first_back :: "args \<Rightarrow> (real \<times> real) list \<Rightarrow> raw_candidate list \<Rightarrow> real option" where
  "first_back a silences [] = None"
| "first_back a silences ((knd, ts, te, n) # cs) =
     (if passes_silence_gate ts te silences
           (fst (build_silence_index silences)) (snd (build_silence_index silences))
           (silence_pre a) (silence_post a)
      then Some ts
      else first_back a silences cs)"

definition pick_back_start :: "args \<Rightarrow> (real \<times> real) list \<Rightarrow> raw_candidate list \<Rightarrow> real option" where
  "pick_back_start a silences raw_candidates = first_back a silences (back_candidates raw_candidates)"

definition mark_num :: "mark \<Rightarrow> int option" where
  "mark_num m = snd (snd m)"

section \<open>Strings\<close>

text \<open>
  Python strings are modelled as \<open>string\<close>. \<open>str(n)\<close> of an integer is its decimal
  representation, with a leading minus sign for a negative number; formatting \<open>None\<close> in
  an f-string gives \<open>None\<close>.
\<close>

definition digit_char :: "nat \<Rightarrow> char" where
  "digit_char d = ''0123456789'' ! d"

function str_nat :: "nat \<Rightarrow> string" where
  "str_nat n = (if n < 10 then [digit_char n] else str_nat (n div 10) @ [digit_char (n mod 10)])"
  by pat_completeness auto
termination
  by (relation "measure id") auto

declare str_nat.simps [simp del]

definition str_int :: "int \<Rightarrow> string" where
  "str_int n = (if n < 0 then CHR ''-'' # str_nat (nat (- n)) else str_nat (nat n))"

definition format_num :: "int option \<Rightarrow> string" where
  "format_num n = (case n of None \<Rightarrow> ''None'' | Some k \<Rightarrow> str_int k)"

definition startswith :: "string \<Rightarrow> string \<Rightarrow> bool" where
  "startswith s p = (take (length p) s = p)"

section \<open>Candidate parser\<close>

text \<open>
  A recognition result is a JSON object; every field is read with \<open>.get\<close>, so each may be
  missing. Only the fields that \<open>parse_phrase\<close> reads are modelled.
\<close>

record word =
  w_start :: "real option"
  w_end :: "real option"
  w_conf :: "real option"

record res_obj =
  r_text :: "string option"
  r_result :: "word list option"

text \<open>
  \<open>str.strip\<close>, \<open>str.lower\<close>, \<open>str.isdigit\<close> and \<open>int\<close> on the ASCII range: white space is
  stripped at both ends, the letters \<open>A\<close> to \<open>Z\<close> are lowered, a non-empty string of the
  digits \<open>0\<close> to \<open>9\<close> is read as a decimal number. Other characters are left unchanged.
\<close>

definition is_space :: "char \<Rightarrow> bool" where
  "is_space c =
     (c \<in> set [CHR 0x09, CHR 0x0A, CHR 0x0B, CHR 0x0C, CHR 0x0D,
                CHR 0x1C, CHR 0x1D, CHR 0x1E, CHR 0x1F, CHR '' ''])"

definition py_strip :: "string \<Rightarrow> string" where
  "py_strip s = rev (dropWhile is_space (rev (dropWhile is_space s)))"

definition lower_char :: "char \<Rightarrow> char" where
  "lower_char c =
     (case map_of (zip ''ABCDEFGHIJKLMNOPQRSTUVWXYZ'' ''abcdefghijklmnopqrstuvwxyz'') c of
        None \<Rightarrow> c | Some d \<Rightarrow> d)"

definition py_lower :: "string \<Rightarrow> string" where
  "py_lower s = map lower_char s"

definition is_digit_char :: "char \<Rightarrow> bool" where
  "is_digit_char c = (c \<in> set ''0123456789'')"

definition isdigit :: "string \<Rightarrow> bool" where
  "isdigit s = (s \<noteq> [] \<and> list_all is_digit_char s)"

definition digit_value :: "char \<Rightarrow> int" where
  "digit_value c =
     (case map_of (zip ''0123456789'' [0, 1, 2, 3, 4, 5, 6, 7, 8, 9]) c of
        None \<Rightarrow> 0 | Some v \<Rightarrow> v)"

definition int_of_digits :: "string \<Rightarrow> int" where
  "int_of_digits s = fold (\<lambda>c v. 10 * v + digit_value c) s 0"

text \<open>\<open>w.get("conf", 1.0)\<close> and \<open>w.get("end", 0.0)\<close>.\<close>

definition get_conf :: "word \<Rightarrow> real" where
  "get_conf w = (case w_conf w of None \<Rightarrow> 1 | Some c \<Rightarrow> c)"

definition get_end :: "word \<Rightarrow> real" where
  "get_end w = (case w_end w of None \<Rightarrow> 0 | Some e \<Rightarrow> e)"

definition conf_ok :: "args \<Rightarrow> word list \<Rightarrow> bool" where
  "conf_ok a words = list_all (\<lambda>w. get_conf w \<ge> conf_min a) words"

text \<open>\<open>max(..., default=None)\<close> over the words' end times.\<close>

definition max_end :: "word list \<Rightarrow> real option" where
  "max_end words = (case map get_end words of [] \<Rightarrow> None | e # es \<Rightarrow> Some (fold max es e))"

text \<open>
  \<open>parse_phrase\<close> is a closure over \<open>args\<close>, \<open>trigger\<close>, \<open>back_trigger\<close> and
  \<open>spoken_to_int\<close>; they are parameters here. It returns the 5-tuple
  \<open>(kind, t_start, t_end, chapter_n, conf_ok)\<close>. The truth tests \<open>if back_trigger and ...\<close> and
  \<open>if n\<close> are false for \<open>None\<close>, for the empty string and for \<open>0\<close>.
\<close>

type_synonym phrase = "kind option \<times> real option \<times> real option \<times> int option \<times> bool"

definition parse_phrase ::
  "args \<Rightarrow> string \<Rightarrow> string option \<Rightarrow> (string \<rightharpoonup> int) \<Rightarrow> res_obj \<Rightarrow> phrase"
where
  "parse_phrase a trigger back_trigger spoken_to_int res =
     (let text = py_lower (py_strip (case r_text res of None \<Rightarrow> [] | Some t \<Rightarrow> t));
          words = (case r_result res of None \<Rightarrow> [] | Some ws \<Rightarrow> ws)
      in if text = [] \<or> words = [] then (None, None, None, None, True)
         else
           (let ok = conf_ok a words;
                t_start = w_start (words ! 0);
                t_end = max_end words
            in if \<not> ok \<or> t_start = None \<or> t_end = None then (None, None, None, None, ok)
               else if (case back_trigger of None \<Rightarrow> False | Some bt \<Rightarrow> bt \<noteq> [] \<and> text = bt)
               then (Some KBack, t_start, t_end, None, ok)
               else if text = trigger then (None, None, None, None, ok)
               else if startswith text (trigger @ '' '') then
                 (let tail = py_strip (drop (length trigger + 1) text);
                      n = (case spoken_to_int tail of
                             None \<Rightarrow> if isdigit tail then Some (int_of_digits tail) else None
                           | Some k \<Rightarrow> Some k)
                  in if n \<noteq> None \<and> n \<noteq> Some 0
                     then (Some KChapter, t_start, t_end, n, ok)
                     else (None, None, None, None, ok))
               else (None, None, None, None, ok)))"

text \<open>
  The caller appends \<open>(kind, ts, te, n)\<close> to \<open>raw_candidates\<close> when \<open>kind and ok\<close>.
\<close>

definition candidate_of :: "phrase \<Rightarrow> raw_candidate option" where
  "candidate_of p =
     (case p of (knd, ts, te, n, ok) \<Rightarrow>
        (case (knd, ts, te) of
           (Some k, Some s, Some e) \<Rightarrow> if ok then Some (k, s, e, n) else None
         | _ \<Rightarrow> None))"

section \<open>Phrase grammar\<close>

text \<open>
  The numeral generators are called with \<open>n\<close> from \<open>range(1, max_chapters + 1)\<close> and, in
  their recursive calls, with quotients and remainders of such numbers, so \<open>n\<close> is a natural
  number here. Strings hold the UTF-8 bytes of the source's text.
\<close>

definition en_units :: "string list" where
  "en_units = [[], ''one'', ''two'', ''three'', ''four'', ''five'', ''six'', ''seven'', ''eight'',
     ''nine'']"

definition en_teens :: "string list" where
  "en_teens = [''ten'', ''eleven'', ''twelve'', ''thirteen'', ''fourteen'', ''fifteen'',
     ''sixteen'', ''seventeen'', ''eighteen'', ''nineteen'']"

definition en_tens :: "string list" where
  "en_tens = [[], [], ''twenty'', ''thirty'', ''forty'', ''fifty'', ''sixty'', ''seventy'',
     ''eighty'', ''ninety'']"

function english_cardinal :: "nat \<Rightarrow> string" where
  "english_cardinal n =
     (if n = 0 then ''zero''
      else if n < 10 then en_units ! n
      else if 10 \<le> n \<and> n < 20 then en_teens ! (n - 10)
      else if n < 100 then
        (if n mod 10 = 0 then en_tens ! (n div 10)
         else en_tens ! (n div 10) @ '' '' @ en_units ! (n mod 10))
      else if n < 1000 then
        (if n mod 100 = 0 then en_units ! (n div 100) @ '' hundred''
         else en_units ! (n div 100) @ '' hundred '' @ english_cardinal (n mod 100))
      else str_nat n)"
  by pat_completeness auto
termination
  by (relation "measure id") auto

declare english_cardinal.simps [simp del]

definition en_ordinal_base :: "(nat \<times> string) list" where
  "en_ordinal_base =
     [(1, ''first''), (2, ''second''), (3, ''third''), (4, ''fourth''), (5, ''fifth''),
      (6, ''sixth''), (7, ''seventh''), (8, ''eighth''), (9, ''ninth''), (10, ''tenth''),
      (11, ''eleventh''), (12, ''twelfth''), (13, ''thirteenth''), (14, ''fourteenth''),
      (15, ''fifteenth''), (16, ''sixteenth''), (17, ''seventeenth''), (18, ''eighteenth''),
      (19, ''nineteenth''), (20, ''twentieth''), (30, ''thirtieth''), (40, ''fortieth''),
      (50, ''fiftieth''), (60, ''sixtieth''), (70, ''seventieth''), (80, ''eightieth''),
      (90, ''ninetieth''), (100, ''hundredth'')]"

text \<open>The truth value of an optional string: false for \<open>None\<close> and for the empty string.\<close>

definition truthy :: "string option \<Rightarrow> bool" where
  "truthy s = (s \<noteq> None \<and> s \<noteq> Some [])"

text \<open>
  \<open>english_ordinal_basic\<close> calls itself on \<open>n % 10\<close> and on \<open>n % 100\<close> without a guard, so
  its termination is not taken for granted: the result is \<open>None\<close> when the recursion does not
  return (Python raises \<open>RecursionError\<close>), \<open>Some None\<close> when it returns \<open>None\<close>, and
  \<open>Some (Some w)\<close> when it returns the string \<open>w\<close>. The first block (\<open>if n < 100\<close>) either
  returns or falls through to the second (\<open>if n < 1000\<close>).
\<close>

partial_function (option) english_ordinal_basic :: "nat \<Rightarrow> string option option" where
  "english_ordinal_basic n =
     (case map_of en_ordinal_base n of
        Some w \<Rightarrow> Some (Some w)
      | None \<Rightarrow>
          Option.bind
            (if n < 100 then
               Option.bind (english_ordinal_basic (n mod 10))
                 (\<lambda>tail.
                    if map_of en_ordinal_base ((n div 10) * 10) \<noteq> None \<and> truthy tail
                    then Some (Some (english_cardinal ((n div 10) * 10) @ '' '' @ the tail))
                    else Some None)
             else Some None)
            (\<lambda>returned.
               case returned of
                 Some w \<Rightarrow> Some (Some w)
               | None \<Rightarrow>
                   if n < 1000 then
                     (if n mod 100 = 0 \<and> map_of en_ordinal_base ((n div 100) * 100) \<noteq> None
                      then Some (map_of en_ordinal_base ((n div 100) * 100))
                      else if (n div 100) * 100 \<noteq> 0 then
                        Option.bind (english_ordinal_basic (n mod 100))
                          (\<lambda>tail.
                             Some (Some (english_cardinal ((n div 100) * 100) @ '' '' @
                                (if truthy tail then the tail else english_cardinal (n mod 100)))))
                      else Some None)
                   else Some None))"

definition ru_units :: "string list" where
  "ru_units =
    [[],
     [CHR 0xD0, CHR 0xBE, CHR 0xD0, CHR 0xB4, CHR 0xD0, CHR 0xB8, CHR 0xD0, CHR 0xBD],
     [CHR 0xD0, CHR 0xB4, CHR 0xD0, CHR 0xB2, CHR 0xD0, CHR 0xB0],
     [CHR 0xD1, CHR 0x82, CHR 0xD1, CHR 0x80, CHR 0xD0, CHR 0xB8],
     [CHR 0xD1, CHR 0x87, CHR 0xD0, CHR 0xB5, CHR 0xD1, CHR 0x82, CHR 0xD1, CHR 0x8B, CHR 0xD1,
      CHR 0x80, CHR 0xD0, CHR 0xB5],
     [CHR 0xD0, CHR 0xBF, CHR 0xD1, CHR 0x8F, CHR 0xD1, CHR 0x82, CHR 0xD1, CHR 0x8C],
     [CHR 0xD1, CHR 0x88, CHR 0xD0, CHR 0xB5, CHR 0xD1, CHR 0x81, CHR 0xD1, CHR 0x82, CHR 0xD1,
      CHR 0x8C],
     [CHR 0xD1, CHR 0x81, CHR 0xD0, CHR 0xB5, CHR 0xD0, CHR 0xBC, CHR 0xD1, CHR 0x8C],
     [CHR 0xD0, CHR 0xB2, CHR 0xD0, CHR 0xBE, CHR 0xD1, CHR 0x81, CHR 0xD0, CHR 0xB5, CHR 0xD0,
      CHR 0xBC, CHR 0xD1, CHR 0x8C],
     [CHR 0xD0, CHR 0xB4, CHR 0xD0, CHR 0xB5, CHR 0xD0, CHR 0xB2, CHR 0xD1, CHR 0x8F, CHR 0xD1,
      CHR 0x82, CHR 0xD1, CHR 0x8C]]"

definition ru_teens :: "string list" where
  "ru_teens =
    [[CHR 0xD0, CHR 0xB4, CHR 0xD0, CHR 0xB5, CHR 0xD1, CHR 0x81, CHR 0xD1, CHR 0x8F, CHR 0xD1,
      CHR 0x82, CHR 0xD1, CHR 0x8C],
     [CHR 0xD0, CHR 0xBE, CHR 0xD0, CHR 0xB4, CHR 0xD0, CHR 0xB8, CHR 0xD0, CHR 0xBD, CHR 0xD0,
      CHR 0xBD, CHR 0xD0, CHR 0xB0, CHR 0xD0, CHR 0xB4, CHR 0xD1, CHR 0x86, CHR 0xD0, CHR
      0xB0, CHR 0xD1, CHR 0x82, CHR 0xD1, CHR 0x8C],
     [CHR 0xD0, CHR 0xB4, CHR 0xD0, CHR 0xB2, CHR 0xD0, CHR 0xB5, CHR 0xD0, CHR 0xBD, CHR 0xD0,
      CHR 0xB0, CHR 0xD0, CHR 0xB4, CHR 0xD1, CHR 0x86, CHR 0xD0, CHR 0xB0, CHR 0xD1, CHR
      0x82, CHR 0xD1, CHR 0x8C],
     [CHR 0xD1, CHR 0x82, CHR 0xD1, CHR 0x80, CHR 0xD0, CHR 0xB8, CHR 0xD0, CHR 0xBD, CHR 0xD0,
      CHR 0xB0, CHR 0xD0, CHR 0xB4, CHR 0xD1, CHR 0x86, CHR 0xD0, CHR 0xB0, CHR 0xD1, CHR
      0x82, CHR 0xD1, CHR 0x8C],
     [CHR 0xD1, CHR 0x87, CHR 0xD0, CHR 0xB5, CHR 0xD1, CHR 0x82, CHR 0xD1, CHR 0x8B, CHR 0xD1,
      CHR 0x80, CHR 0xD0, CHR 0xBD, CHR 0xD0, CHR 0xB0, CHR 0xD0, CHR 0xB4, CHR 0xD1, CHR
      0x86, CHR 0xD0, CHR 0xB0, CHR 0xD1, CHR 0x82, CHR 0xD1, CHR 0x8C],
     [CHR 0xD0, CHR 0xBF, CHR 0xD1, CHR 0x8F, CHR 0xD1, CHR 0x82, CHR 0xD0, CHR 0xBD, CHR 0xD0,
      CHR 0xB0, CHR 0xD0, CHR 0xB4, CHR 0xD1, CHR 0x86, CHR 0xD0, CHR 0xB0, CHR 0xD1, CHR
      0x82, CHR 0xD1, CHR 0x8C],
     [CHR 0xD1, CHR 0x88, CHR 0xD0, CHR 0xB5, CHR 0xD1, CHR 0x81, CHR 0xD1, CHR 0x82, CHR 0xD0,
      CHR 0xBD, CHR 0xD0, CHR 0xB0, CHR 0xD0, CHR 0xB4, CHR 0xD1, CHR 0x86, CHR 0xD0, CHR
      0xB0, CHR 0xD1, CHR 0x82, CHR 0xD1, CHR 0x8C],
     [CHR 0xD1, CHR 0x81, CHR 0xD0, CHR 0xB5, CHR 0xD0, CHR 0xBC, CHR 0xD0, CHR 0xBD, CHR 0xD0,
      CHR 0xB0, CHR 0xD0, CHR 0xB4, CHR 0xD1, CHR 0x86, CHR 0xD0, CHR 0xB0, CHR 0xD1, CHR
      0x82, CHR 0xD1, CHR 0x8C],
     [CHR 0xD0, CHR 0xB2, CHR 0xD0, CHR 0xBE, CHR 0xD1, CHR 0x81, CHR 0xD0, CHR 0xB5, CHR 0xD0,
      CHR 0xBC, CHR 0xD0, CHR 0xBD, CHR 0xD0, CHR 0xB0, CHR 0xD0, CHR 0xB4, CHR 0xD1, CHR
      0x86, CHR 0xD0, CHR 0xB0, CHR 0xD1, CHR 0x82, CHR 0xD1, CHR 0x8C],
     [CHR 0xD0, CHR 0xB4, CHR 0xD0, CHR 0xB5, CHR 0xD0, CHR 0xB2, CHR 0xD1, CHR 0x8F, CHR 0xD1,
      CHR 0x82, CHR 0xD0, CHR 0xBD, CHR 0xD0, CHR 0xB0, CHR 0xD0, CHR 0xB4, CHR 0xD1, CHR
      0x86, CHR 0xD0, CHR 0xB0, CHR 0xD1, CHR 0x82, CHR 0xD1, CHR 0x8C]]"

definition ru_tens :: "string list" where
  "ru_tens =
    [[],
     [CHR 0xD0, CHR 0xB4, CHR 0xD0, CHR 0xB5, CHR 0xD1, CHR 0x81, CHR 0xD1, CHR 0x8F, CHR 0xD1,
      CHR 0x82, CHR 0xD1, CHR 0x8C],
     [CHR 0xD0, CHR 0xB4, CHR 0xD0, CHR 0xB2, CHR 0xD0, CHR 0xB0, CHR 0xD0, CHR 0xB4, CHR 0xD1,
      CHR 0x86, CHR 0xD0, CHR 0xB0, CHR 0xD1, CHR 0x82, CHR 0xD1, CHR 0x8C],
     [CHR 0xD1, CHR 0x82, CHR 0xD1, CHR 0x80, CHR 0xD0, CHR 0xB8, CHR 0xD0, CHR 0xB4, CHR 0xD1,
      CHR 0x86, CHR 0xD0, CHR 0xB0, CHR 0xD1, CHR 0x82, CHR 0xD1, CHR 0x8C],
     [CHR 0xD1, CHR 0x81, CHR 0xD0, CHR 0xBE, CHR 0xD1, CHR 0x80, CHR 0xD0, CHR 0xBE, CHR 0xD0,
      CHR 0xBA],
     [CHR 0xD0, CHR 0xBF, CHR 0xD1, CHR 0x8F, CHR 0xD1, CHR 0x82, CHR 0xD1, CHR 0x8C, CHR 0xD0,
      CHR 0xB4, CHR 0xD0, CHR 0xB5, CHR 0xD1, CHR 0x81, CHR 0xD1, CHR 0x8F, CHR 0xD1, CHR
      0x82],
     [CHR 0xD1, CHR 0x88, CHR 0xD0, CHR 0xB5, CHR 0xD1, CHR 0x81, CHR 0xD1, CHR 0x82, CHR 0xD1,
      CHR 0x8C, CHR 0xD0, CHR 0xB4, CHR 0xD0, CHR 0xB5, CHR 0xD1, CHR 0x81, CHR 0xD1, CHR
      0x8F, CHR 0xD1, CHR 0x82],
     [CHR 0xD1, CHR 0x81, CHR 0xD0, CHR 0xB5, CHR 0xD0, CHR 0xBC, CHR 0xD1, CHR 0x8C, CHR 0xD0,
      CHR 0xB4, CHR 0xD0, CHR 0xB5, CHR 0xD1, CHR 0x81, CHR 0xD1, CHR 0x8F, CHR 0xD1, CHR
      0x82],
     [CHR 0xD0, CHR 0xB2, CHR 0xD0, CHR 0xBE, CHR 0xD1, CHR 0x81, CHR 0xD0, CHR 0xB5, CHR 0xD0,
      CHR 0xBC, CHR 0xD1, CHR 0x8C, CHR 0xD0, CHR 0xB4, CHR 0xD0, CHR 0xB5, CHR 0xD1, CHR
      0x81, CHR 0xD1, CHR 0x8F, CHR 0xD1, CHR 0x82],
     [CHR 0xD0, CHR 0xB4, CHR 0xD0, CHR 0xB5, CHR 0xD0, CHR 0xB2, CHR 0xD1, CHR 0x8F, CHR 0xD0,
      CHR 0xBD, CHR 0xD0, CHR 0xBE, CHR 0xD1, CHR 0x81, CHR 0xD1, CHR 0x82, CHR 0xD0, CHR
      0xBE]]"

definition ru_hundreds :: "string list" where
  "ru_hundreds =
    [[],
     [CHR 0xD1, CHR 0x81, CHR 0xD1, CHR 0x82, CHR 0xD0, CHR 0xBE],
     [CHR 0xD0, CHR 0xB4, CHR 0xD0, CHR 0xB2, CHR 0xD0, CHR 0xB5, CHR 0xD1, CHR 0x81, CHR 0xD1,
      CHR 0x82, CHR 0xD0, CHR 0xB8],
     [CHR 0xD1, CHR 0x82, CHR 0xD1, CHR 0x80, CHR 0xD0, CHR 0xB8, CHR 0xD1, CHR 0x81, CHR 0xD1,
      CHR 0x82, CHR 0xD0, CHR 0xB0],
     [CHR 0xD1, CHR 0x87, CHR 0xD0, CHR 0xB5, CHR 0xD1, CHR 0x82, CHR 0xD1, CHR 0x8B, CHR 0xD1,
      CHR 0x80, CHR 0xD0, CHR 0xB5, CHR 0xD1, CHR 0x81, CHR 0xD1, CHR 0x82, CHR 0xD0, CHR
      0xB0],
     [CHR 0xD0, CHR 0xBF, CHR 0xD1, CHR 0x8F, CHR 0xD1, CHR 0x82, CHR 0xD1, CHR 0x8C, CHR 0xD1,
      CHR 0x81, CHR 0xD0, CHR 0xBE, CHR 0xD1, CHR 0x82],
     [CHR 0xD1, CHR 0x88, CHR 0xD0, CHR 0xB5, CHR 0xD1, CHR 0x81, CHR 0xD1, CHR 0x82, CHR 0xD1,
      CHR 0x8C, CHR 0xD1, CHR 0x81, CHR 0xD0, CHR 0xBE, CHR 0xD1, CHR 0x82],
     [CHR 0xD1, CHR 0x81, CHR 0xD0, CHR 0xB5, CHR 0xD0, CHR 0xBC, CHR 0xD1, CHR 0x8C, CHR 0xD1,
      CHR 0x81, CHR 0xD0, CHR 0xBE, CHR 0xD1, CHR 0x82],
     [CHR 0xD0, CHR 0xB2, CHR 0xD0, CHR 0xBE, CHR 0xD1, CHR 0x81, CHR 0xD0, CHR 0xB5, CHR 0xD0,
      CHR 0xBC, CHR 0xD1, CHR 0x8C, CHR 0xD1, CHR 0x81, CHR 0xD0, CHR 0xBE, CHR 0xD1, CHR
      0x82],
     [CHR 0xD0, CHR 0xB4, CHR 0xD0, CHR 0xB5, CHR 0xD0, CHR 0xB2, CHR 0xD1, CHR 0x8F, CHR 0xD1,
      CHR 0x82, CHR 0xD1, CHR 0x8C, CHR 0xD1, CHR 0x81, CHR 0xD0, CHR 0xBE, CHR 0xD1, CHR
      0x82]]"

definition ru_ordinal_base :: "(nat \<times> string) list" where
  "ru_ordinal_base =
    [(1, [CHR 0xD0, CHR 0xBF, CHR 0xD0, CHR 0xB5, CHR 0xD1, CHR 0x80, CHR 0xD0, CHR 0xB2, CHR
      0xD0, CHR 0xB0, CHR 0xD1, CHR 0x8F]),
     (2, [CHR 0xD0, CHR 0xB2, CHR 0xD1, CHR 0x82, CHR 0xD0, CHR 0xBE, CHR 0xD1, CHR 0x80, CHR
      0xD0, CHR 0xB0, CHR 0xD1, CHR 0x8F]),
     (3, [CHR 0xD1, CHR 0x82, CHR 0xD1, CHR 0x80, CHR 0xD0, CHR 0xB5, CHR 0xD1, CHR 0x82, CHR
      0xD1, CHR 0x8C, CHR 0xD1, CHR 0x8F]),
     (4, [CHR 0xD1, CHR 0x87, CHR 0xD0, CHR 0xB5, CHR 0xD1, CHR 0x82, CHR 0xD0, CHR 0xB2, CHR
      0xD0, CHR 0xB5, CHR 0xD1, CHR 0x80, CHR 0xD1, CHR 0x82, CHR 0xD0, CHR 0xB0, CHR 0xD1,
      CHR 0x8F]),
     (5, [CHR 0xD0, CHR 0xBF, CHR 0xD1, CHR 0x8F, CHR 0xD1, CHR 0x82, CHR 0xD0, CHR 0xB0, CHR
      0xD1, CHR 0x8F]),
     (6, [CHR 0xD1, CHR 0x88, CHR 0xD0, CHR 0xB5, CHR 0xD1, CHR 0x81, CHR 0xD1, CHR 0x82, CHR
      0xD0, CHR 0xB0, CHR 0xD1, CHR 0x8F]),
     (7, [CHR 0xD1, CHR 0x81, CHR 0xD0, CHR 0xB5, CHR 0xD0, CHR 0xB4, CHR 0xD1, CHR 0x8C, CHR
      0xD0, CHR 0xBC, CHR 0xD0, CHR 0xB0, CHR 0xD1, CHR 0x8F]),
     (8, [CHR 0xD0, CHR 0xB2, CHR 0xD0, CHR 0xBE, CHR 0xD1, CHR 0x81, CHR 0xD1, CHR 0x8C, CHR
      0xD0, CHR 0xBC, CHR 0xD0, CHR 0xB0, CHR 0xD1, CHR 0x8F]),
     (9, [CHR 0xD0, CHR 0xB4, CHR 0xD0, CHR 0xB5, CHR 0xD0, CHR 0xB2, CHR 0xD1, CHR 0x8F, CHR
      0xD1, CHR 0x82, CHR 0xD0, CHR 0xB0, CHR 0xD1, CHR 0x8F]),
     (10, [CHR 0xD0, CHR 0xB4, CHR 0xD0, CHR 0xB5, CHR 0xD1, CHR 0x81, CHR 0xD1, CHR 0x8F, CHR
      0xD1, CHR 0x82, CHR 0xD0, CHR 0xB0, CHR 0xD1, CHR 0x8F])]"

function russian_cardinal :: "nat \<Rightarrow> string" where
  "russian_cardinal n =
     (if n = 0 then [CHR 0xD0, CHR 0xBD, CHR 0xD0, CHR 0xBE, CHR 0xD0, CHR 0xBB, CHR 0xD1, CHR 0x8C]
      else if n < 10 then ru_units ! n
      else if 10 \<le> n \<and> n < 20 then ru_teens ! (n - 10)
      else if n < 100 then
        (if n mod 10 = 0 then ru_tens ! (n div 10)
         else py_strip (ru_tens ! (n div 10) @ '' '' @ ru_units ! (n mod 10)))
      else if n < 1000 then
        (if n mod 100 = 0 then ru_hundreds ! (n div 100)
         else py_strip (ru_hundreds ! (n div 100) @ '' '' @ russian_cardinal (n mod 100)))
      else str_nat n)"
  by pat_completeness auto
termination
  by (relation "measure id") auto

declare russian_cardinal.simps [simp del]

definition russian_ordinal_basic :: "nat \<Rightarrow> string option" where
  "russian_ordinal_basic n = map_of ru_ordinal_base n"

text \<open>
  A loop whose body may fail to return: the loop stops with \<open>None\<close> at the first
  iteration that does.
\<close>

fun run_loop :: "('a \<Rightarrow> 's \<Rightarrow> 's option) \<Rightarrow> 'a list \<Rightarrow> 's \<Rightarrow> 's option" where
  "run_loop f [] s = Some s"
| "run_loop f (x # xs) s = (case f x s of None \<Rightarrow> None | Some s' \<Rightarrow> run_loop f xs s')"

text \<open>
  The two branches of \<open>build_phrase_map\<close> have the same loop body and differ only in the
  generators they call, which are the parameters \<open>cardinal\<close> and \<open>ordinal\<close> of the body here.
  The state is \<open>(phrases, spoken_to_int)\<close>; the dictionary is a map.
\<close>

definition phrase_step ::
  "(nat \<Rightarrow> string) \<Rightarrow> (nat \<Rightarrow> string option option) \<Rightarrow> string \<Rightarrow> bool \<Rightarrow> nat \<Rightarrow>
   string list \<times> (string \<rightharpoonup> int) \<Rightarrow> (string list \<times> (string \<rightharpoonup> int)) option"
where
  "phrase_step cardinal ordinal trigger include_ordinals n st =
     (case st of (phrases, spoken_to_int) \<Rightarrow>
        (let spoken = cardinal n;
             phrases1 = phrases @ [trigger @ '' '' @ spoken];
             map1 = spoken_to_int(spoken \<mapsto> int n)
         in if include_ordinals then
              (case ordinal n of
                 None \<Rightarrow> None
               | Some ordw \<Rightarrow>
                   if truthy ordw
                   then Some (phrases1 @ [trigger @ '' '' @ the ordw], map1(the ordw \<mapsto> int n))
                   else Some (phrases1, map1))
            else Some (phrases1, map1)))"

definition build_phrase_map ::
  "string \<Rightarrow> string \<Rightarrow> int \<Rightarrow> bool \<Rightarrow> (string list \<times> (string \<rightharpoonup> int)) option"
where
  "build_phrase_map language trigger max_chapters include_ordinals =
     (case
        (if language = ''ru''
         then run_loop
                (phrase_step russian_cardinal (\<lambda>n. Some (russian_ordinal_basic n))
                   trigger include_ordinals)
                [1..<Suc (nat max_chapters)] ([], Map.empty)
         else run_loop
                (phrase_step english_cardinal english_ordinal_basic trigger include_ordinals)
                [1..<Suc (nat max_chapters)] ([], Map.empty))
      of None \<Rightarrow> None
       | Some (phrases, spoken_to_int) \<Rightarrow> Some (phrases @ [trigger], spoken_to_int))"

text \<open>The cardinal generator of a language, as selected by \<open>build_phrase_map\<close>.\<close>

definition cardinal_of :: "string \<Rightarrow> nat \<Rightarrow> string" where
  "cardinal_of language = (if language = ''ru'' then russian_cardinal else english_cardinal)"

section \<open>Segment builder\<close>




text \<open>
  The loop \<open>for i in range(len(marks))\<close>: segment \<open>i\<close> runs from the start of mark \<open>i\<close> to
  the start of mark \<open>i + 1\<close>, or to the total duration for the last mark.
\<close>

definition chapter_segments :: "mark list \<Rightarrow> real \<Rightarrow> segment list" where
  "chapter_segments marks total_duration =
     map (\<lambda>i. (fst (marks ! i),
               (if i + 1 < length marks then fst (marks ! (i + 1)) else total_duration),
               ''chapter_'' @ format_num (snd (snd (marks ! i)))))
       [0..<length marks]"

text \<open>One iteration of the back-matter truncation loop; the state is \<open>new_segs\<close>.\<close>

definition truncate_step :: "real \<Rightarrow> segment \<Rightarrow> segment list \<Rightarrow> segment list" where
  "truncate_step bs seg new_segs =
     (case seg of (ss, ee, lab) \<Rightarrow>
        if bs \<le> ss then new_segs
        else if ss < bs \<and> bs < ee then new_segs @ [(ss, bs, lab)]
        else new_segs @ [(ss, ee, lab)])"

definition truncate_pass :: "real \<Rightarrow> segment list \<Rightarrow> segment list" where
  "truncate_pass bs segments = fold (truncate_step bs) segments []"

text \<open>
  Step 6 of \<open>main\<close>. \<open>if back_start and back_start > 1.0\<close> tests the truth value of
  \<open>back_start\<close> first: it is false for \<open>None\<close> and for \<open>0.0\<close>.
\<close>

definition build_segments :: "mark list \<Rightarrow> real option \<Rightarrow> real \<Rightarrow> segment list" where
  "build_segments marks back_start total_duration =
     (if marks \<noteq> [] then
        (let first_t = fst (marks ! 0);
             segments = (if first_t > 0.2 then [(0, first_t, ''preface'')] else []) @
                        chapter_segments marks total_duration
         in case back_start of
              None \<Rightarrow> segments
            | Some bs \<Rightarrow>
                (let new_segs = truncate_pass bs segments
                 in if total_duration - bs \<ge> 1
                    then new_segs @ [(bs, total_duration, ''back_matter'')]
                    else new_segs))
      else
        (case back_start of
           None \<Rightarrow> [(0, total_duration, ''preface'')]
         | Some bs \<Rightarrow>
             if bs \<noteq> 0 \<and> bs > 1
             then [(0, bs, ''preface''), (bs, total_duration, ''back_matter'')]
             else [(0, total_duration, ''preface'')]))"

text \<open>
  Step 7, first pass; the state is \<open>cleaned\<close>. \<open>cleaned[-1] = (pss, ee, plab)\<close> overwrites
  the last element; with no previous element the short chapter is skipped (\<open>continue\<close>).
\<close>

definition merge_step :: "args \<Rightarrow> segment \<Rightarrow> segment list \<Rightarrow> segment list" where
  "merge_step a seg cleaned =
     (case seg of (ss, ee, lab) \<Rightarrow>
        if startswith lab ''chapter_'' \<and> ee - ss < min_chapter_duration a then
          (if cleaned \<noteq> [] then
             (case cleaned ! (length cleaned - 1) of (pss, pee, plab) \<Rightarrow>
                cleaned[length cleaned - 1 := (pss, ee, plab)])
           else cleaned)
        else cleaned @ [seg])"

definition merge_pass :: "args \<Rightarrow> segment list \<Rightarrow> segment list" where
  "merge_pass a segments = fold (merge_step a) segments []"





text \<open>
  The condition under which the gating loop does not \<open>continue\<close> at the silence check:
  the silence list is empty (the gate is bypassed) or the gate is passed.
\<close>

definition gate_ok :: "args \<Rightarrow> (real \<times> real) list \<Rightarrow> real \<Rightarrow> real \<Rightarrow> bool" where
  "gate_ok a silences ts te =
     (length silences > 0 \<longrightarrow>
        passes_silence_gate ts te silences
          (fst (build_silence_index silences)) (snd (build_silence_index silences))
          (silence_pre a) (silence_post a))"

text \<open>
  Marks in time order whose start times are pairwise at least \<open>g\<close> apart.
\<close>

definition gapped :: "real \<Rightarrow> mark list \<Rightarrow> bool" where
  "gapped g ms = sorted_wrt (\<lambda>m m'. fst m \<le> fst m' \<and> g \<le> fst m' - fst m) ms"








section \<open>Properties of the silence index\<close>











section \<open>Properties of the candidate filter\<close>

subsection \<open>Empty silence list\<close>

lemma bisect_right_empty: "bisect_right [] x = 0"
  unfolding bisect_right_def by (subst bisect_right_loop.simps) simp

lemma bisect_left_empty: "bisect_left [] x = 0"
  unfolding bisect_left_def by (subst bisect_left_loop.simps) simp

lemma gate_empty: "\<not> passes_silence_gate ts te [] [] [] pre_win post_win"
  by (simp add: passes_silence_gate_def nearest_silence_bounds_def bisect_right_empty
      bisect_left_empty)

lemma first_back_empty: "first_back a [] cs = None"
  by (induction cs) (auto simp: build_silence_index_def gate_empty)

text \<open>
  C1. With an empty silence list the chapter loop skips the gate, but the back-matter loop
  calls \<open>passes_silence_gate\<close> unconditionally, and on an empty index the gate fails
  (there is no preceding silence end). So no back-matter candidate is ever selected when no
  silence was detected: \<open>back_start\<close> (computed by \<open>pick_back_start\<close>) is \<open>None\<close> for every candidate list.
\<close>

theorem no_silence_back_matter_never_selected:
  "pick_back_start a [] raw_candidates = None"
  by (simp add: pick_back_start_def first_back_empty)

theorem no_silence_back_matter_never_selected_witness:
  "pick_back_start
     \<lparr>conf_min = 0.35, sequential_chapters = False, min_chapter_gap = 90,
      min_chapter_duration = 120, silence_pre = 0.6, silence_post = 0.8\<rparr> []
     [(KChapter, 10, 11, Some 1), (KBack, 3000, 3001, None)] = None \<and>
   gated_chapters
     \<lparr>conf_min = 0.35, sequential_chapters = False, min_chapter_gap = 90,
      min_chapter_duration = 120, silence_pre = 0.6, silence_post = 0.8\<rparr> []
     [(KChapter, 10, 11, Some 1), (KBack, 3000, 3001, None)] = [(10, 11, Some 1)]"
  using no_silence_back_matter_never_selected
    [of "\<lparr>conf_min = 0.35, sequential_chapters = False, min_chapter_gap = 90,
      min_chapter_duration = 120, silence_pre = 0.6, silence_post = 0.8\<rparr>"
     "[(KChapter, 10, 11, Some 1), (KBack, 3000, 3001, None)]"]
  by (simp add: gated_chapters_def chapter_candidates_def cand_ts_def
        chapter_step_def initial_last_keep_t_def)

subsection \<open>Debounce\<close>

lemma chapter_step_pair:
  "chapter_step a silences (knd, ts, te, n) (chapters, last_keep_t) =
     (if gate_ok a silences ts te \<and> min_chapter_gap a \<le> ts - last_keep_t
      then (chapters @ [(ts, te, n)], ts) else (chapters, last_keep_t))"
  by (auto simp: chapter_step_def gate_ok_def)

lemma first_occurrence_step_pair:
  "first_occurrence_step (ts, te, n) (marks, seen) =
     (if n \<notin> seen then (marks @ [(ts, te, n)], insert n seen) else (marks, seen))"
  by (simp add: first_occurrence_step_def)

lemma sequential_step_pair:
  "sequential_step (ts, te, n) (acc, e) =
     (if n = Some e then (acc @ [(ts, te, n)], e + 1) else (acc, e))"
  by (simp add: sequential_step_def)

lemma chapter_fold_gapped:
  "sorted (map cand_ts cs) \<Longrightarrow> gapped (min_chapter_gap a) acc \<Longrightarrow>
   \<forall>m\<in>set acc. fst m \<le> last_t \<Longrightarrow>
   \<forall>m\<in>set acc. \<forall>c\<in>set cs. fst m \<le> cand_ts c \<Longrightarrow>
   gapped (min_chapter_gap a) (fst (fold (chapter_step a silences) cs (acc, last_t)))"
proof (induction cs arbitrary: acc last_t)
  case Nil
  then show ?case by simp
next
  case (Cons c cs)
  obtain knd ts te n where c: "c = (knd, ts, te, n)" by (cases c) auto
  have ts: "cand_ts c = ts" by (simp add: c cand_ts_def)
  show ?case
  proof (cases "gate_ok a silences ts te \<and> min_chapter_gap a \<le> ts - last_t")
    case True
    have 1: "sorted (map cand_ts cs)" using Cons.prems(1) by simp
    have le: "\<forall>m\<in>set acc. fst m \<le> ts" using Cons.prems(4) ts by simp
    have 2: "gapped (min_chapter_gap a) (acc @ [(ts, te, n)])"
      using Cons.prems(2,3) le True
      by (fastforce simp: gapped_def sorted_wrt_append)
    have 3: "\<forall>m\<in>set (acc @ [(ts, te, n)]). fst m \<le> ts" using le by simp
    have 4: "\<forall>m\<in>set (acc @ [(ts, te, n)]). \<forall>c\<in>set cs. fst m \<le> cand_ts c"
      using Cons.prems(1,4) ts by auto
    have "chapter_step a silences c (acc, last_t) = (acc @ [(ts, te, n)], ts)"
      using True by (simp add: c chapter_step_pair)
    with Cons.IH [OF 1 2 3 4] show ?thesis by simp
  next
    case False
    have 1: "sorted (map cand_ts cs)" using Cons.prems(1) by simp
    have 4: "\<forall>m\<in>set acc. \<forall>c\<in>set cs. fst m \<le> cand_ts c" using Cons.prems(4) by simp
    have "chapter_step a silences c (acc, last_t) = (acc, last_t)"
      using False by (simp add: c chapter_step_pair)
    with Cons.IH [OF 1 Cons.prems(2,3) 4] show ?thesis by simp
  qed
qed

lemma gated_chapters_gapped: "gapped (min_chapter_gap a) (gated_chapters a silences raw)"
  unfolding gated_chapters_def
  by (rule chapter_fold_gapped) (simp_all add: chapter_candidates_def gapped_def)

lemma gapped_sorted: "gapped g ms \<Longrightarrow> sorted (map fst ms)"
  by (simp add: gapped_def sorted_map sorted_wrt_mono_rel [where P = "\<lambda>m m'. fst m \<le> fst m' \<and> g \<le> fst m' - fst m"])

lemma first_occurrence_fold_sorted_wrt:
  "sorted_wrt P (acc @ ms) \<Longrightarrow> sorted_wrt P (fst (fold first_occurrence_step ms (acc, seen)))"
proof (induction ms arbitrary: acc seen)
  case Nil
  then show ?case by simp
next
  case (Cons m ms)
  obtain ts te n where m: "m = (ts, te, n)" by (cases m) auto
  have keep: "sorted_wrt P ((acc @ [m]) @ ms)" using Cons.prems by simp
  have drop: "sorted_wrt P (acc @ ms)" using Cons.prems by (auto simp: sorted_wrt_append)
  have "first_occurrence_step m (acc, seen) = (acc @ [m], insert n seen) \<or>
        first_occurrence_step m (acc, seen) = (acc, seen)"
    by (simp add: m first_occurrence_step_pair)
  then show ?case
    using Cons.IH [OF keep] Cons.IH [OF drop] by auto
qed

lemma sequential_fold_sorted_wrt:
  "sorted_wrt P (acc @ ms) \<Longrightarrow> sorted_wrt P (fst (fold sequential_step ms (acc, e)))"
proof (induction ms arbitrary: acc e)
  case Nil
  then show ?case by simp
next
  case (Cons m ms)
  obtain ts te n where m: "m = (ts, te, n)" by (cases m) auto
  have keep: "sorted_wrt P ((acc @ [m]) @ ms)" using Cons.prems by simp
  have drop: "sorted_wrt P (acc @ ms)" using Cons.prems by (auto simp: sorted_wrt_append)
  have "sequential_step m (acc, e) = (acc @ [m], e + 1) \<or>
        sequential_step m (acc, e) = (acc, e)"
    by (simp add: m sequential_step_pair)
  then show ?case
    using Cons.IH [OF keep] Cons.IH [OF drop] by auto
qed

lemma final_marks_gapped: "gapped (min_chapter_gap a) (final_marks a silences raw)"
proof -
  let ?g = "min_chapter_gap a"
  let ?ch = "gated_chapters a silences raw"
  have g: "gapped ?g ?ch" by (rule gated_chapters_gapped)
  have s: "sort_key fst ?ch = ?ch" using gapped_sorted [OF g] by (rule sort_key_id_if_sorted)
  show ?thesis
  proof (cases "sequential_chapters a")
    case True
    have "gapped ?g (fst (fold sequential_step ?ch ([], 1)))"
      unfolding gapped_def using g
      by (intro sequential_fold_sorted_wrt) (simp add: gapped_def)
    with True s show ?thesis by (simp add: final_marks_def)
  next
    case False
    let ?d = "fst (fold first_occurrence_step ?ch ([], {}))"
    have d: "gapped ?g ?d"
      unfolding gapped_def using g
      by (intro first_occurrence_fold_sorted_wrt) (simp add: gapped_def)
    have "sort_key fst ?d = ?d" using gapped_sorted [OF d] by (rule sort_key_id_if_sorted)
    with False d show ?thesis by (simp add: final_marks_def)
  qed
qed

lemma chapter_fold_last:
  "fold (chapter_step a silences) cs (acc, last_t) = (kept, t) \<Longrightarrow>
   last_t = (if acc = [] then initial_last_keep_t else fst (last acc)) \<Longrightarrow>
   t = (if kept = [] then initial_last_keep_t else fst (last kept)) \<and> (\<exists>new. kept = acc @ new)"
proof (induction cs arbitrary: acc last_t)
  case Nil
  then show ?case by auto
next
  case (Cons c cs)
  obtain knd ts te n where c: "c = (knd, ts, te, n)" by (cases c) auto
  show ?case
  proof (cases "gate_ok a silences ts te \<and> min_chapter_gap a \<le> ts - last_t")
    case True
    with Cons.prems(1) have "fold (chapter_step a silences) cs (acc @ [(ts, te, n)], ts) = (kept, t)"
      by (simp add: c chapter_step_pair)
    from Cons.IH [OF this] show ?thesis by auto
  next
    case False
    with Cons.prems(1) have "fold (chapter_step a silences) cs (acc, last_t) = (kept, t)"
      by (simp add: c chapter_step_pair)
    from Cons.IH [OF this Cons.prems(2)] show ?thesis .
  qed
qed


text \<open>
  C4. In the final mark list (after debouncing, deduplication and the optional sequential
  scan) the start times of any two marks at distinct positions differ by at least
  \<open>min_chapter_gap\<close>. The debounce is greedy from left to right over the time-sorted
  chapter candidates: when the candidates before a candidate \<open>c\<close> have left the loop in
  state \<open>(kept, last_t)\<close>, then \<open>last_t\<close> is the start of the last kept candidate (the
  sentinel \<open>-1e12\<close> when none was kept), \<open>c\<close> is appended exactly when the gate is passed
  or bypassed and \<open>ts - last_t \<ge> min_chapter_gap\<close>, and what the loop has kept up to \<open>c\<close>
  stays a prefix of its result.
\<close>

theorem debounce_gap_greedy:
  "(\<forall>i j. i \<noteq> j \<longrightarrow> i < length (final_marks a silences raw) \<longrightarrow>
      j < length (final_marks a silences raw) \<longrightarrow>
      min_chapter_gap a \<le>
        \<bar>fst (final_marks a silences raw ! j) - fst (final_marks a silences raw ! i)\<bar>) \<and>
   (\<forall>pre knd ts te n post kept last_t.
      chapter_candidates raw = pre @ (knd, ts, te, n) # post \<longrightarrow>
      fold (chapter_step a silences) pre ([], initial_last_keep_t) = (kept, last_t) \<longrightarrow>
        last_t = (if kept = [] then initial_last_keep_t else fst (last kept)) \<and>
        fold (chapter_step a silences) (pre @ [(knd, ts, te, n)]) ([], initial_last_keep_t) =
          (if gate_ok a silences ts te \<and> min_chapter_gap a \<le> ts - last_t
           then (kept @ [(ts, te, n)], ts) else (kept, last_t)) \<and>
        (\<exists>rest. gated_chapters a silences raw =
           fst (fold (chapter_step a silences) (pre @ [(knd, ts, te, n)])
                  ([], initial_last_keep_t)) @ rest))"
proof (intro conjI allI impI)
  fix i j
  let ?ms = "final_marks a silences raw"
  assume ne: "i \<noteq> j" and i: "i < length ?ms" and j: "j < length ?ms"
  have g: "sorted_wrt (\<lambda>m m'. fst m \<le> fst m' \<and> min_chapter_gap a \<le> fst m' - fst m) ?ms"
    using final_marks_gapped [of a silences raw] by (simp add: gapped_def)
  show "min_chapter_gap a \<le> \<bar>fst (?ms ! j) - fst (?ms ! i)\<bar>"
  proof (cases "i < j")
    case True
    from sorted_wrt_nth_less [OF g True j] show ?thesis by simp
  next
    case False
    with ne have "j < i" by simp
    from sorted_wrt_nth_less [OF g this i] show ?thesis by simp
  qed
next
  fix pre knd ts te n post kept last_t
  assume split: "chapter_candidates raw = pre @ (knd, ts, te, n) # post"
    and pre: "fold (chapter_step a silences) pre ([], initial_last_keep_t) = (kept, last_t)"
  show "last_t = (if kept = [] then initial_last_keep_t else fst (last kept))"
    using chapter_fold_last [OF pre] by simp
  show step: "fold (chapter_step a silences) (pre @ [(knd, ts, te, n)]) ([], initial_last_keep_t) =
      (if gate_ok a silences ts te \<and> min_chapter_gap a \<le> ts - last_t
       then (kept @ [(ts, te, n)], ts) else (kept, last_t))"
    using pre by (simp add: chapter_step_pair)
  obtain kept' t' where k: "fold (chapter_step a silences) (pre @ [(knd, ts, te, n)])
      ([], initial_last_keep_t) = (kept', t')"
    by (cases "fold (chapter_step a silences) (pre @ [(knd, ts, te, n)]) ([], initial_last_keep_t)")
  have t': "t' = (if kept' = [] then initial_last_keep_t else fst (last kept'))"
    using chapter_fold_last [OF k] by simp
  obtain kept'' t'' where r: "fold (chapter_step a silences) post (kept', t') = (kept'', t'')"
    by (cases "fold (chapter_step a silences) post (kept', t')")
  from chapter_fold_last [OF r t'] obtain rest where "kept'' = kept' @ rest" by blast
  moreover have "gated_chapters a silences raw = kept''"
  proof -
    have "chapter_candidates raw = (pre @ [(knd, ts, te, n)]) @ post" using split by simp
    then show ?thesis using k r by (simp add: gated_chapters_def del: append_assoc)
  qed
  ultimately show "\<exists>rest. gated_chapters a silences raw =
      fst (fold (chapter_step a silences) (pre @ [(knd, ts, te, n)]) ([], initial_last_keep_t)) @ rest"
    using k by simp
qed

theorem debounce_gap_greedy_witness:
  "final_marks 
     \<lparr>conf_min = 0.35, sequential_chapters = False, min_chapter_gap = 90,
        min_chapter_duration = 120, silence_pre = 0.6, silence_post = 0.8\<rparr> [] 
     [(KChapter, 10, 11, Some 1), (KChapter, 120, 121, Some 2), (KChapter, 121, 122, Some 3)] = [(10, 11, Some 1), (120, 121, Some 2)] \<and>
   min_chapter_gap 
     \<lparr>conf_min = 0.35, sequential_chapters = False, min_chapter_gap = 90,
        min_chapter_duration = 120, silence_pre = 0.6, silence_post = 0.8\<rparr> \<le> \<bar>fst (final_marks 
     \<lparr>conf_min = 0.35, sequential_chapters = False, min_chapter_gap = 90,
        min_chapter_duration = 120, silence_pre = 0.6, silence_post = 0.8\<rparr> [] 
     [(KChapter, 10, 11, Some 1), (KChapter, 120, 121, Some 2), (KChapter, 121, 122, Some 3)] ! 1) - fst (final_marks 
     \<lparr>conf_min = 0.35, sequential_chapters = False, min_chapter_gap = 90,
        min_chapter_duration = 120, silence_pre = 0.6, silence_post = 0.8\<rparr> [] 
     [(KChapter, 10, 11, Some 1), (KChapter, 120, 121, Some 2), (KChapter, 121, 122, Some 3)] ! 0)\<bar> \<and>
   fold (chapter_step 
     \<lparr>conf_min = 0.35, sequential_chapters = False, min_chapter_gap = 90,
        min_chapter_duration = 120, silence_pre = 0.6, silence_post = 0.8\<rparr> [])
     [(KChapter, 10, 11, Some 1), (KChapter, 120, 121, Some 2), (KChapter, 121, 122, Some 3)]
     ([], initial_last_keep_t) = ([(10, 11, Some 1), (120, 121, Some 2)], 120)"
proof -
  have fm: "final_marks 
     \<lparr>conf_min = 0.35, sequential_chapters = False, min_chapter_gap = 90,
        min_chapter_duration = 120, silence_pre = 0.6, silence_post = 0.8\<rparr> [] 
     [(KChapter, 10, 11, Some 1), (KChapter, 120, 121, Some 2), (KChapter, 121, 122, Some 3)] = [(10, 11, Some 1), (120, 121, Some 2)]"
    by (simp add: final_marks_def gated_chapters_def chapter_candidates_def cand_ts_def
        chapter_step_def initial_last_keep_t_def first_occurrence_step_def)
  have cc: "chapter_candidates 
     [(KChapter, 10, 11, Some 1), (KChapter, 120, 121, Some 2), (KChapter, 121, 122, Some 3)] =
      [(KChapter, 10, 11, Some 1), (KChapter, 120, 121, Some 2)] @ (KChapter, 121, 122, Some 3) # []"
    by (simp add: chapter_candidates_def cand_ts_def)
  have pre: "fold (chapter_step 
     \<lparr>conf_min = 0.35, sequential_chapters = False, min_chapter_gap = 90,
        min_chapter_duration = 120, silence_pre = 0.6, silence_post = 0.8\<rparr> [])
      [(KChapter, 10, 11, Some 1), (KChapter, 120, 121, Some 2)] ([], initial_last_keep_t) =
      ([(10, 11, Some 1), (120, 121, Some 2)], 120)"
    by (simp add: chapter_step_def initial_last_keep_t_def)
  note inst = debounce_gap_greedy
    [of "\<lparr>conf_min = 0.35, sequential_chapters = False, min_chapter_gap = 90,
        min_chapter_duration = 120, silence_pre = 0.6, silence_post = 0.8\<rparr>" "[]"
        "[(KChapter, 10, 11, Some 1), (KChapter, 120, 121, Some 2), (KChapter, 121, 122, Some 3)]"]
  from inst have "min_chapter_gap 
     \<lparr>conf_min = 0.35, sequential_chapters = False, min_chapter_gap = 90,
        min_chapter_duration = 120, silence_pre = 0.6, silence_post = 0.8\<rparr> \<le>
      \<bar>fst (final_marks 
     \<lparr>conf_min = 0.35, sequential_chapters = False, min_chapter_gap = 90,
        min_chapter_duration = 120, silence_pre = 0.6, silence_post = 0.8\<rparr> [] 
     [(KChapter, 10, 11, Some 1), (KChapter, 120, 121, Some 2), (KChapter, 121, 122, Some 3)] ! 1) - fst (final_marks 
     \<lparr>conf_min = 0.35, sequential_chapters = False, min_chapter_gap = 90,
        min_chapter_duration = 120, silence_pre = 0.6, silence_post = 0.8\<rparr> [] 
     [(KChapter, 10, 11, Some 1), (KChapter, 120, 121, Some 2), (KChapter, 121, 122, Some 3)] ! 0)\<bar>"
    using fm by simp
  moreover from inst cc pre have "fold (chapter_step 
     \<lparr>conf_min = 0.35, sequential_chapters = False, min_chapter_gap = 90,
        min_chapter_duration = 120, silence_pre = 0.6, silence_post = 0.8\<rparr> [])
      ([(KChapter, 10, 11, Some 1), (KChapter, 120, 121, Some 2)] @ [(KChapter, 121, 122, Some 3)])
      ([], initial_last_keep_t) =
      (if gate_ok 
     \<lparr>conf_min = 0.35, sequential_chapters = False, min_chapter_gap = 90,
        min_chapter_duration = 120, silence_pre = 0.6, silence_post = 0.8\<rparr> [] 121 122 \<and> min_chapter_gap 
     \<lparr>conf_min = 0.35, sequential_chapters = False, min_chapter_gap = 90,
        min_chapter_duration = 120, silence_pre = 0.6, silence_post = 0.8\<rparr> \<le> 121 - 120
       then ([(10, 11, Some 1), (120, 121, Some 2)] @ [(121, 122, Some 3)], 121)
       else ([(10, 11, Some 1), (120, 121, Some 2)], 120))"
    by blast
  ultimately show ?thesis using fm by simp
qed

subsection \<open>Sequential mode\<close>

lemma sequential_fold:
  "fold sequential_step ms (acc, e) = (acc', e') \<Longrightarrow>
   \<exists>new. acc' = acc @ new \<and> e' = e + int (length new) \<and> map mark_num new = map Some [e..e' - 1]"
proof (induction ms arbitrary: acc e)
  case Nil
  then show ?case by simp
next
  case (Cons m ms)
  obtain ts te n where m: "m = (ts, te, n)" by (cases m) auto
  show ?case
  proof (cases "n = Some e")
    case True
    with Cons.prems m have "fold sequential_step ms (acc @ [m], e + 1) = (acc', e')"
      by (simp add: sequential_step_pair)
    from Cons.IH [OF this] obtain new where
      new: "acc' = (acc @ [m]) @ new" "e' = e + 1 + int (length new)"
           "map mark_num new = map Some [e + 1..e' - 1]"
      by blast
    have "e \<le> e' - 1" using new(2) by simp
    then have "[e..e' - 1] = e # [e + 1..e' - 1]" by (simp add: upto_rec1)
    with new True m have "map mark_num (m # new) = map Some [e..e' - 1]"
      by (simp add: mark_num_def)
    with new show ?thesis by (intro exI [of _ "m # new"]) simp
  next
    case False
    with Cons.prems m have "fold sequential_step ms (acc, e) = (acc', e')"
      by (simp add: sequential_step_pair)
    from Cons.IH [OF this] show ?thesis .
  qed
qed

text \<open>
  C5. With sequential-chapter mode on, the chapter numbers of the final marks, read in the
  order of the list (time order), are exactly \<open>1, 2, \<dots>, k\<close>, where \<open>k\<close> is the number of
  final marks; this holds for every silence list and every list of raw candidates.
\<close>

theorem sequential_marks_numbers:
  "sequential_chapters a \<Longrightarrow>
   map mark_num (final_marks a silences raw_candidates) =
     map Some [1..int (length (final_marks a silences raw_candidates))]"
proof -
  assume seq: "sequential_chapters a"
  define ms where "ms = sort_key fst (sort_key fst (gated_chapters a silences raw_candidates))"
  obtain acc' e' where f: "fold sequential_step ms ([], 1) = (acc', e')"
    by (cases "fold sequential_step ms ([], 1)") auto
  from sequential_fold [OF f] have "map mark_num acc' = map Some [1..int (length acc')]"
    by auto
  moreover have "final_marks a silences raw_candidates = acc'"
    using seq f by (simp add: final_marks_def ms_def)
  ultimately show ?thesis by simp
qed

theorem sequential_marks_numbers_witness:
  "sequential_chapters
     \<lparr>conf_min = 0.35, sequential_chapters = True, min_chapter_gap = 90,
      min_chapter_duration = 120, silence_pre = 0.6, silence_post = 0.8\<rparr> \<and>
   map mark_num
     (final_marks
        \<lparr>conf_min = 0.35, sequential_chapters = True, min_chapter_gap = 90,
         min_chapter_duration = 120, silence_pre = 0.6, silence_post = 0.8\<rparr> []
        [(KChapter, 10, 11, Some 1), (KChapter, 120, 121, Some 2), (KChapter, 300, 301, Some 5)]) =
   map Some
     [1..int (length
        (final_marks
           \<lparr>conf_min = 0.35, sequential_chapters = True, min_chapter_gap = 90,
            min_chapter_duration = 120, silence_pre = 0.6, silence_post = 0.8\<rparr> []
           [(KChapter, 10, 11, Some 1), (KChapter, 120, 121, Some 2),
            (KChapter, 300, 301, Some 5)]))]"
  using sequential_marks_numbers
    [of "\<lparr>conf_min = 0.35, sequential_chapters = True, min_chapter_gap = 90,
         min_chapter_duration = 120, silence_pre = 0.6, silence_post = 0.8\<rparr>" "[]"
        "[(KChapter, 10, 11, Some 1), (KChapter, 120, 121, Some 2), (KChapter, 300, 301, Some 5)]"]
  by simp

section \<open>Properties of the candidate parser\<close>

lemma parse_no_text:
  "py_strip (case r_text res of None \<Rightarrow> [] | Some t \<Rightarrow> t) = [] \<Longrightarrow>
   parse_phrase a trigger back_trigger spoken_to_int res = (None, None, None, None, True)"
  by (simp add: parse_phrase_def py_lower_def)

lemma parse_no_words:
  "(case r_result res of None \<Rightarrow> [] | Some ws \<Rightarrow> ws) = [] \<Longrightarrow>
   parse_phrase a trigger back_trigger spoken_to_int res = (None, None, None, None, True)"
  by (simp add: parse_phrase_def)

lemma parse_no_start:
  "r_result res = Some (w # ws) \<Longrightarrow> w_start w = None \<Longrightarrow>
   fst (parse_phrase a trigger back_trigger spoken_to_int res) = None"
  by (simp add: parse_phrase_def Let_def)

lemma candidate_of_no_kind: "fst p = None \<Longrightarrow> candidate_of p = None"
  by (cases p) (simp add: candidate_of_def)

lemma parse_conf_default:
  "w_conf w = None \<Longrightarrow>
   parse_phrase a trigger back_trigger spoken_to_int (res\<lparr>r_result := Some (ws1 @ w # ws2)\<rparr>) =
   parse_phrase a trigger back_trigger spoken_to_int
     (res\<lparr>r_result := Some (ws1 @ w\<lparr>w_conf := Some 1\<rparr> # ws2)\<rparr>)"
proof -
  assume c: "w_conf w = None"
  let ?w' = "w\<lparr>w_conf := Some 1\<rparr>"
  have g: "get_conf ?w' = get_conf w" using c by (simp add: get_conf_def)
  have e: "get_end ?w' = get_end w" by (simp add: get_end_def)
  have 1: "conf_ok a (ws1 @ ?w' # ws2) = conf_ok a (ws1 @ w # ws2)"
    using g by (simp add: conf_ok_def)
  have 2: "max_end (ws1 @ ?w' # ws2) = max_end (ws1 @ w # ws2)"
    using e by (simp add: max_end_def)
  have 3: "w_start ((ws1 @ ?w' # ws2) ! 0) = w_start ((ws1 @ w # ws2) ! 0)"
    by (cases ws1) simp_all
  have 4: "(ws1 @ ?w' # ws2 = []) = (ws1 @ w # ws2 = [])" by simp
  show ?thesis
    unfolding parse_phrase_def Let_def by (simp add: 1 2 3 split del: if_split cong: if_cong option.case_cong)
qed


text \<open>
  C8 as stated fails: a word without \<open>conf\<close> and \<open>end\<close>, and a later word without \<open>start\<close>,
  do not suppress the candidate, because \<open>conf\<close> defaults to \<open>1.0\<close>, \<open>end\<close> to \<open>0.0\<close> and
  only the first word's \<open>start\<close> is read.
\<close>

theorem parse_phrase_missing_fields_counterexample:
  "candidate_of
     (parse_phrase \<lparr>conf_min = 0.35, sequential_chapters = False, min_chapter_gap = 90,
        min_chapter_duration = 120, silence_pre = 0.6, silence_post = 0.8\<rparr> ''chapter'' None [''one'' \<mapsto> 1]
        \<lparr>r_text = Some ''chapter one'',
         r_result = Some [\<lparr>w_start = Some 1, w_end = None, w_conf = None\<rparr>,
                          \<lparr>w_start = None, w_end = Some 2, w_conf = Some 0.9\<rparr>]\<rparr>) =
   Some (KChapter, 1, 2, Some 1)"
  by (simp add: parse_phrase_def py_lower_def lower_char_def py_strip_def is_space_def
      conf_ok_def get_conf_def max_end_def get_end_def startswith_def candidate_of_def)

text \<open>
  C8, amended. A recognition result whose text is missing or empty after stripping, whose
  word list is missing or empty, or whose first word has no \<open>start\<close>, yields no candidate:
  the returned kind is \<open>None\<close> and nothing is appended to \<open>raw_candidates\<close>. The parser is
  a total function on such results (every field is read with a default).
\<close>

theorem parse_phrase_missing_fields:
  "r_text res = None \<or> (\<exists>t. r_text res = Some t \<and> py_strip t = []) \<or>
   r_result res = None \<or> r_result res = Some [] \<or>
   (\<exists>w ws. r_result res = Some (w # ws) \<and> w_start w = None) \<Longrightarrow>
   fst (parse_phrase a trigger back_trigger spoken_to_int res) = None \<and>
   candidate_of (parse_phrase a trigger back_trigger spoken_to_int res) = None"
proof -
  assume h: "r_text res = None \<or> (\<exists>t. r_text res = Some t \<and> py_strip t = []) \<or>
   r_result res = None \<or> r_result res = Some [] \<or>
   (\<exists>w ws. r_result res = Some (w # ws) \<and> w_start w = None)"
  have "fst (parse_phrase a trigger back_trigger spoken_to_int res) = None"
  proof -
    consider "py_strip (case r_text res of None \<Rightarrow> [] | Some t \<Rightarrow> t) = []"
      | "(case r_result res of None \<Rightarrow> [] | Some ws \<Rightarrow> ws) = []"
      | w ws where "r_result res = Some (w # ws)" "w_start w = None"
      using h by (auto simp: py_strip_def)
    then show ?thesis
    proof cases
      case 1
      then show ?thesis by (simp add: parse_no_text)
    next
      case 2
      then show ?thesis by (simp add: parse_no_words)
    next
      case 3
      then show ?thesis by (rule parse_no_start)
    qed
  qed
  then show ?thesis by (simp add: candidate_of_no_kind)
qed

theorem parse_phrase_missing_fields_witness:
  "candidate_of
     (parse_phrase \<lparr>conf_min = 0.35, sequential_chapters = False, min_chapter_gap = 90,
        min_chapter_duration = 120, silence_pre = 0.6, silence_post = 0.8\<rparr> ''chapter'' None [''one'' \<mapsto> 1]
        \<lparr>r_text = Some ''chapter one'',
         r_result = Some [\<lparr>w_start = None, w_end = Some 2, w_conf = Some 0.9\<rparr>]\<rparr>) = None"
  using parse_phrase_missing_fields
    [of "\<lparr>r_text = Some ''chapter one'',
         r_result = Some [\<lparr>w_start = None, w_end = Some 2, w_conf = Some 0.9\<rparr>]\<rparr>"
        "\<lparr>conf_min = 0.35, sequential_chapters = False, min_chapter_gap = 90,
        min_chapter_duration = 120, silence_pre = 0.6, silence_post = 0.8\<rparr>" "''chapter''" None "[''one'' \<mapsto> 1]"]
  by simp

text \<open>
  C10. A word without a \<open>conf\<close> field is read as confidence \<open>1.0\<close>: the parser's result is
  the same as if the field were present with value \<open>1.0\<close>. For a floor of at most \<open>1.0\<close> the
  word meets the floor, and the outcome of the confidence gate is that of the other words
  alone.
\<close>

theorem missing_conf_passes_gate:
  "conf_min a \<le> 1 \<Longrightarrow> w_conf w = None \<Longrightarrow>
   get_conf w = 1 \<and> conf_min a \<le> get_conf w \<and>
   conf_ok a (ws1 @ w # ws2) = conf_ok a (ws1 @ ws2) \<and>
   parse_phrase a trigger back_trigger spoken_to_int (res\<lparr>r_result := Some (ws1 @ w # ws2)\<rparr>) =
   parse_phrase a trigger back_trigger spoken_to_int
     (res\<lparr>r_result := Some (ws1 @ w\<lparr>w_conf := Some 1\<rparr> # ws2)\<rparr>)"
  using parse_conf_default [where w = w and a = a and res = res and ?ws1.0 = ws1 and ?ws2.0 = ws2]
  by (simp add: conf_ok_def get_conf_def)

theorem missing_conf_passes_gate_witness:
  "conf_ok \<lparr>conf_min = 0.35, sequential_chapters = False, min_chapter_gap = 90,
        min_chapter_duration = 120, silence_pre = 0.6, silence_post = 0.8\<rparr>
     [\<lparr>w_start = Some 1, w_end = Some 2, w_conf = Some 0.9\<rparr>,
      \<lparr>w_start = Some 2, w_end = Some 3, w_conf = None\<rparr>] \<and>
   get_conf \<lparr>w_start = Some 2, w_end = Some 3, w_conf = None\<rparr> = 1"
  using missing_conf_passes_gate
    [of "\<lparr>conf_min = 0.35, sequential_chapters = False, min_chapter_gap = 90,
        min_chapter_duration = 120, silence_pre = 0.6, silence_post = 0.8\<rparr>" "\<lparr>w_start = Some 2, w_end = Some 3, w_conf = None\<rparr>"
        "[\<lparr>w_start = Some 1, w_end = Some 2, w_conf = Some 0.9\<rparr>]" "[]"]
  by (simp add: conf_ok_def get_conf_def)

section \<open>Properties of the segment builder\<close>

subsection \<open>Minimum-duration pass 1\<close>

lemma str_nat_digit: "n < 10 \<Longrightarrow> str_nat n = [digit_char n]"
  by (subst str_nat.simps) simp


text \<open>
  C7. A short chapter segment met while \<open>cleaned\<close> is still empty is skipped, and the pass
  continues as if the segment had not been there: the segment that follows keeps its own
  start, so the skipped time range belongs to no segment.
\<close>

theorem merge_pass_leading_short_chapter:
  "startswith lab ''chapter_'' \<Longrightarrow> ee - ss < min_chapter_duration a \<Longrightarrow>
   merge_pass a ((ss, ee, lab) # segs) = merge_pass a segs"
  by (simp add: merge_pass_def merge_step_def)

theorem merge_pass_leading_short_chapter_witness:
  "build_segments [(0.1, 1, Some 1), (50, 51, Some 2)] None 500 =
     [(0.1, 50, ''chapter_1''), (50, 500, ''chapter_2'')] \<and>
   merge_pass \<lparr>conf_min = 0.35, sequential_chapters = False, min_chapter_gap = 90,
        min_chapter_duration = 120, silence_pre = 0.6, silence_post = 0.8\<rparr> [(0.1, 50, ''chapter_1''), (50, 500, ''chapter_2'')] =
     [(50, 500, ''chapter_2'')]"
proof -
  have b: "build_segments [(0.1, 1, Some 1), (50, 51, Some 2)] None 500 =
     [(0.1, 50, ''chapter_1''), (50, 500, ''chapter_2'')]"
    by (simp add: build_segments_def chapter_segments_def format_num_def str_int_def
        str_nat_digit digit_char_def)
  have "merge_pass \<lparr>conf_min = 0.35, sequential_chapters = False, min_chapter_gap = 90,
        min_chapter_duration = 120, silence_pre = 0.6, silence_post = 0.8\<rparr> [(0.1, 50, ''chapter_1''), (50, 500, ''chapter_2'')] =
      merge_pass \<lparr>conf_min = 0.35, sequential_chapters = False, min_chapter_gap = 90,
        min_chapter_duration = 120, silence_pre = 0.6, silence_post = 0.8\<rparr> [(50, 500, ''chapter_2'')]"
    using merge_pass_leading_short_chapter
      [of "''chapter_1''" 50 "0.1" "\<lparr>conf_min = 0.35, sequential_chapters = False, min_chapter_gap = 90,
        min_chapter_duration = 120, silence_pre = 0.6, silence_post = 0.8\<rparr>" "[(50, 500, ''chapter_2'')]"]
    by (simp add: startswith_def)
  also have "\<dots> = [(50, 500, ''chapter_2'')]"
    by (simp add: merge_pass_def merge_step_def startswith_def)
  finally show ?thesis using b by simp
qed

section \<open>Properties of the phrase grammar\<close>

subsection \<open>Termination of the ordinal generator\<close>

lemma en_base_0: "map_of en_ordinal_base 0 = None"
  by (simp add: en_ordinal_base_def)

lemma english_ordinal_never_0: "english_ordinal_basic n = Some r \<Longrightarrow> n \<noteq> 0"
  apply (rule english_ordinal_basic.raw_induct [where P = "\<lambda>x y. x \<noteq> 0" and n = n and y = r])
  subgoal for f x y
    apply (rule notI)
    apply (cases "f 0")
     apply (simp add: en_base_0)
    apply blast
    done
  apply assumption
  done

lemma english_ordinal_0: "english_ordinal_basic 0 = None"
  using english_ordinal_never_0 [of 0] by (cases "english_ordinal_basic 0") auto

lemma en_base_dom:
  "(map_of en_ordinal_base n \<noteq> None) = (n \<in> {1..20} \<or> n \<in> {30, 40, 50, 60, 70, 80, 90, 100})"
  by (auto simp: en_ordinal_base_def) arith

lemma english_ordinal_base: "map_of en_ordinal_base n = Some w \<Longrightarrow> english_ordinal_basic n = Some (Some w)"
  by (subst english_ordinal_basic.simps) simp

lemma english_ordinal_lt_100:
  assumes "n < 100" "n \<noteq> 0"
  shows "\<exists>r. english_ordinal_basic n = Some r"
proof (cases "map_of en_ordinal_base n")
  case (Some w)
  then show ?thesis by (simp add: english_ordinal_base)
next
  case None
  then have "n mod 10 \<noteq> 0" using assms en_base_dom [of n] by auto presburger
  then have "n mod 10 \<in> {1..20}" by auto
  then obtain w where w: "map_of en_ordinal_base (n mod 10) = Some w"
    using en_base_dom [of "n mod 10"] by blast
  have u: "english_ordinal_basic (n mod 10) = Some (Some w)" by (rule english_ordinal_base [OF w])
  have h: "n div 100 * 100 = 0" "n < 1000" using assms by auto
  show ?thesis
    by (subst english_ordinal_basic.simps) (simp add: None u assms h)
qed

lemma english_ordinal_hundreds:
  assumes "100 \<le> n" "n < 1000" "n mod 100 \<noteq> 0"
  shows "\<exists>r. english_ordinal_basic n = Some r"
proof -
  have n: "map_of en_ordinal_base n = None" using assms en_base_dom [of n] by auto
  have "n mod 100 < 100" by simp
  from english_ordinal_lt_100 [OF this assms(3)] obtain r where
    r: "english_ordinal_basic (n mod 100) = Some r" by blast
  have h: "n div 100 * 100 \<noteq> 0" "\<not> n < 100" using assms by auto
  show ?thesis
    by (subst english_ordinal_basic.simps) (simp add: n r assms h)
qed

lemma english_ordinal_ge_1000: "1000 \<le> n \<Longrightarrow> english_ordinal_basic n = Some None"
  using en_base_dom [of n] by (subst english_ordinal_basic.simps) auto

lemma english_ordinal_round_hundreds:
  assumes "200 \<le> n" "n < 1000" "n mod 100 = 0"
  shows "english_ordinal_basic n = None"
proof -
  have n: "map_of en_ordinal_base n = None" using assms en_base_dom [of n] by auto
  have "n div 100 * 100 = n" using assms(3) by auto
  then have h: "map_of en_ordinal_base (n div 100 * 100) = None" "n div 100 * 100 \<noteq> 0"
    using n assms by auto
  show ?thesis
    using assms by (subst english_ordinal_basic.simps) (simp add: n h english_ordinal_0)
qed

lemma english_ordinal_returns_iff:
  "(english_ordinal_basic n = None) = (n = 0 \<or> (n mod 100 = 0 \<and> 200 \<le> n \<and> n < 1000))"
proof (cases "n = 0 \<or> (n mod 100 = 0 \<and> 200 \<le> n \<and> n < 1000)")
  case True
  then show ?thesis using english_ordinal_0 english_ordinal_round_hundreds by auto
next
  case False
  have "\<exists>r. english_ordinal_basic n = Some r"
  proof -
    consider "n < 100" | "100 \<le> n" "n < 1000" "n mod 100 \<noteq> 0" | "n = 100" | "1000 \<le> n"
      using False by (cases "n mod 100 = 0") force+
    then show ?thesis
    proof cases
      case 1
      then show ?thesis using False english_ordinal_lt_100 by simp
    next
      case 2
      then show ?thesis by (rule english_ordinal_hundreds)
    next
      case 3
      then show ?thesis using en_base_dom [of 100] english_ordinal_base [of 100] by auto
    next
      case 4
      then show ?thesis by (simp add: english_ordinal_ge_1000)
    qed
  qed
  with False show ?thesis by auto
qed

lemma run_loop_fails:
  "x \<in> set xs \<Longrightarrow> (\<And>s. f x s = None) \<Longrightarrow> run_loop f xs s = None"
  by (induction xs arbitrary: s) (auto split: option.splits)

lemma english_phrase_map_fails:
  assumes "language \<noteq> ''ru''" "200 \<le> max_chapters"
  shows "build_phrase_map language trigger max_chapters True = None"
proof -
  have m: "(200::nat) \<in> set [1..<Suc (nat max_chapters)]" using assms(2) by auto
  have "english_ordinal_basic 200 = None" by (rule english_ordinal_round_hundreds) simp_all
  then have "\<And>s. phrase_step english_cardinal english_ordinal_basic trigger True 200 s = None"
    by (simp add: phrase_step_def split: prod.splits)
  then have "run_loop (phrase_step english_cardinal english_ordinal_basic trigger True)
      [1..<Suc (nat max_chapters)] ([], Map.empty) = None"
    using m by (intro run_loop_fails [where x = 200]) auto
  then show ?thesis
    using assms(1) by (simp add: build_phrase_map_def)
qed

text \<open>
  C3. The ordinal generator does not return for every \<open>n\<close>: \<open>english_ordinal_basic 0\<close> calls
  itself on \<open>0 % 10 = 0\<close>, and for \<open>n = 200, 300, \<dots>, 900\<close> the generator calls
  \<open>english_ordinal_basic (n % 100)\<close>, that is, on \<open>0\<close>. These are the only arguments on which it
  does not return. So building the English phrase grammar with ordinals does not return as
  soon as \<open>max_chapters\<close> is at least \<open>200\<close>.
\<close>

theorem english_ordinal_basic_divergence:
  "(english_ordinal_basic n = None) = (n = 0 \<or> (n mod 100 = 0 \<and> 200 \<le> n \<and> n < 1000)) \<and>
   (language \<noteq> ''ru'' \<and> 200 \<le> max_chapters \<longrightarrow>
      build_phrase_map language trigger max_chapters True = None)"
  using english_ordinal_returns_iff [of n] english_phrase_map_fails [of language max_chapters trigger]
  by blast

theorem english_ordinal_basic_divergence_witness:
  "english_ordinal_basic 200 = None \<and> build_phrase_map ''en'' ''chapter'' 200 True = None"
  using english_ordinal_basic_divergence [of 200 "''en''" 200 "''chapter''"]
  by simp

subsection \<open>Contiguity and minimum length of the final segments\<close>




lemma list_all_subset: "list_all P xs \<Longrightarrow> set ys \<subseteq> set xs \<Longrightarrow> list_all P ys"
  by (auto simp: list_all_iff)










lemma chapter_segments_Nil: "chapter_segments [] tot = []"
  by (simp add: chapter_segments_def)




























end
